theory Spec2Isabelle
  imports Main "HOL-Library.AList"
begin

section \<open>Data model of the dashboard (pages/Dashboard.jsx)\<close>

text \<open>
  A JavaScript object used as a dictionary is an association list: keys are strings, a key
  occurs at most once, and \<open>{...p, [k]: v}\<close> overwrites in place or appends, which is what
  \<^const>\<open>AList.update\<close> does. \<open>obj[k]\<close> is \<^const>\<open>map_of\<close>, \<open>delete obj[k]\<close> is
  \<^const>\<open>AList.delete\<close>, \<open>Object.keys(obj)\<close> is \<open>map fst\<close>.
\<close>

type_synonym 'v js_object = "(string \<times> 'v) list"

text \<open>
  An account as the profiles API returns it. The field \<open>id\<close> of the source is
  \<open>acc_id\<close> here. Optional fields are options (\<open>None\<close> for undefined or null).
\<close>

record account =
  acc_id :: string
  service_type :: string
  consumer_id :: string
  label :: string
  profile_id :: "string option"
  number_plate :: "string option"

text \<open>
  A bill snapshot: the body \<open>{status, amount_due, units_consumed?}\<close> of
  \<open>POST utilities/fetch-bill\<close>, or the object the failure branch of
  \<open>fetchBillForAccount\<close> writes. Amounts are JavaScript numbers; they are integers here
  (whole currency units), so rounding of fractions is not modelled. An absent \<open>error\<close>
  key is \<open>False\<close>.
\<close>

record bill_snapshot =
  amount_due :: "int option"
  status :: string
  units_consumed :: "int option"
  error :: bool

text \<open>The record \<open>saveCachedLayout\<close> stringifies: \<open>{accounts, billData, timestamp}\<close>.\<close>

record layout_cache =
  cache_accounts :: "account list"
  cache_billData :: "bill_snapshot js_object"
  timestamp :: "int option"

text \<open>
  What \<open>localStorage.getItem(LAYOUT_CACHE_KEY)\<close> followed by \<open>JSON.parse\<close> can meet:
  the storage access throws, no item (\<open>null\<close>), the empty string, text that
  \<open>JSON.parse\<close> rejects, the JSON value \<open>null\<close>, a JSON value without properties of
  its own (number, string, boolean, array), or an object, read as a \<open>layout_cache\<close>.
\<close>

datatype cache_storage =
    StorageThrows
  | NoItem
  | EmptyString
  | Unparseable
  | JsonNull
  | JsonNonObject
  | JsonObject layout_cache

section \<open>Layout cache\<close>

definition CACHE_WINDOW_MS :: int where
  "CACHE_WINDOW_MS = 24 * 60 * 60 * 1000"

text \<open>
  \<open>loadCachedLayout\<close>; \<open>now\<close> is \<open>Date.now()\<close>. Every exception is caught and ends
  in \<open>return null\<close>; \<open>data.timestamp &&\<close> fails for a missing timestamp and for 0.
\<close>

fun loadCachedLayout :: "cache_storage \<Rightarrow> int \<Rightarrow> layout_cache option" where
  "loadCachedLayout StorageThrows now = None"
| "loadCachedLayout NoItem now = None"
| "loadCachedLayout EmptyString now = None"
| "loadCachedLayout Unparseable now = None"
| "loadCachedLayout JsonNull now = None"
| "loadCachedLayout JsonNonObject now = None"
| "loadCachedLayout (JsonObject data) now =
     (case timestamp data of
        None \<Rightarrow> None
      | Some t \<Rightarrow> if t \<noteq> 0 \<and> now - t < CACHE_WINDOW_MS then Some data else None)"

text \<open>
  \<open>saveCachedLayout\<close>: \<open>localStorage.setItem\<close> may throw (quota, disabled storage); the
  exception is swallowed and the stored item stays as it was. \<open>writable\<close> says whether
  the write goes through.
\<close>

definition saveCachedLayout ::
  "bool \<Rightarrow> int \<Rightarrow> account list \<Rightarrow> bill_snapshot js_object \<Rightarrow> cache_storage \<Rightarrow> cache_storage" where
  "saveCachedLayout writable now accs bills store =
     (if writable
      then JsonObject \<lparr>cache_accounts = accs, cache_billData = bills, timestamp = Some now\<rparr>
      else store)"

section \<open>Dashboard state\<close>

text \<open>
  Modelled from the spec: the body of a successful \<open>POST utilities/fetch-bill\<close>, whose
  server is not part of the sources: \<open>{status, amount_due, units_consumed?}\<close>.
\<close>

record bill_response =
  resp_status :: string
  resp_amount_due :: "int option"
  resp_units_consumed :: "int option"

definition snapshot_of_response :: "bill_response \<Rightarrow> bill_snapshot" where
  "snapshot_of_response d =
     \<lparr>amount_due = resp_amount_due d, status = resp_status d,
      units_consumed = resp_units_consumed d, error = False\<rparr>"

text \<open>A profile of \<open>GET profiles\<close>: \<open>{id, name, accounts[]}\<close>.\<close>

record profile =
  prof_id :: string
  prof_name :: string
  prof_accounts :: "account list"

text \<open>Chart series: rows of the comparison bar chart, rows and lines of the trend chart.\<close>

record comparison_point =
  service :: string
  amount :: int
  fill :: string

record trend_point =
  month :: string
  series :: "int js_object"

record trend_line =
  line_key :: string
  line_color :: string
  line_label :: string

text \<open>
  The body of \<open>POST utilities/chart-data\<close>; a key may be missing, and
  \<open>data.key || []\<close> then yields the empty list.
\<close>

record chart_response =
  comparison_data :: "comparison_point list option"
  trend_data :: "trend_point list option"
  trend_lines :: "trend_line list option"

text \<open>
  Requests in flight. Each carries what the continuation of its \<open>await\<close> closes over:
  the account of a bill fetch, the \<open>accounts\<close> and \<open>billData\<close> of the render that started a
  chart request or a removal, the draft of an added account.
\<close>

datatype request =
    GetProfiles
  | FetchBill account
  | GetChartData "account list" "bill_snapshot js_object"
  | InitiatePayment string string string
  | RemoveAccountRemote account "account list" "bill_snapshot js_object"
  | AddAccountRemote account

text \<open>
  The component state of \<open>Dashboard\<close> that the bill store and the charts use (the add and
  history modals are left out). The last four fields are not React state: the item stored
  under \<open>LAYOUT_CACHE_KEY\<close>, the value of \<open>Date.now()\<close>, whether
  \<open>localStorage.setItem\<close> succeeds, and the requests in flight.
\<close>

record dashboard =
  accounts :: "account list"
  billData :: "bill_snapshot js_object"
  loadingAccounts :: "bool js_object"
  selectedAccount :: "account option"
  isQRModalOpen :: bool
  qrCode :: string
  comparisonData :: "comparison_point list"
  trendData :: "trend_point list"
  trendLines :: "trend_line list"
  initialLoading :: bool
  localStorage :: cache_storage
  clock :: int
  storageWritable :: bool
  outbox :: "request list"

section \<open>Bill fetch orchestrator\<close>

text \<open>
  \<open>fetchBillForAccount\<close> up to its \<open>await\<close>: the loading flag of the account is set and
  the request leaves.
\<close>

definition fetchBillForAccount :: "account \<Rightarrow> dashboard \<Rightarrow> dashboard" where
  "fetchBillForAccount a s =
     s\<lparr>loadingAccounts := AList.update (acc_id a) True (loadingAccounts s),
       outbox := outbox s @ [FetchBill a]\<rparr>"

text \<open>The \<open>try\<close> branch after the response arrived, followed by \<open>finally\<close>.\<close>

definition fetchBill_resolved :: "account \<Rightarrow> bill_response \<Rightarrow> dashboard \<Rightarrow> dashboard" where
  "fetchBill_resolved a d s =
     s\<lparr>billData := AList.update (acc_id a) (snapshot_of_response d) (billData s),
       loadingAccounts := AList.update (acc_id a) False (loadingAccounts s)\<rparr>"

definition error_snapshot :: bill_snapshot where
  "error_snapshot =
     \<lparr>amount_due = Some 0, status = ''unknown'', units_consumed = None, error = True\<rparr>"

text \<open>The \<open>catch\<close> branch, followed by \<open>finally\<close>.\<close>

definition fetchBill_rejected :: "account \<Rightarrow> dashboard \<Rightarrow> dashboard" where
  "fetchBill_rejected a s =
     s\<lparr>billData := AList.update (acc_id a) error_snapshot (billData s),
       loadingAccounts := AList.update (acc_id a) False (loadingAccounts s)\<rparr>"

definition handleRefresh :: "account \<Rightarrow> dashboard \<Rightarrow> dashboard" where
  "handleRefresh a s = fetchBillForAccount a s"

text \<open>
  The effect on \<open>[accounts]\<close>: \<open>r\<close> is the render the effect closes over, \<open>s\<close> the
  state its updates land on. \<open>!billData[account.id]\<close> holds exactly for a missing key,
  a snapshot being an object.
\<close>

definition accountsNeedingFetch :: "dashboard \<Rightarrow> account list" where
  "accountsNeedingFetch r =
     filter (\<lambda>a. map_of (billData r) (acc_id a) = None) (accounts r)"

definition effect_fetchMissing :: "dashboard \<Rightarrow> dashboard \<Rightarrow> dashboard" where
  "effect_fetchMissing r s = fold fetchBillForAccount (accountsNeedingFetch r) s"

text \<open>The effect on \<open>[accounts, billData]\<close> that persists the layout.\<close>

definition effect_persist :: "dashboard \<Rightarrow> dashboard \<Rightarrow> dashboard" where
  "effect_persist r s =
     (if accounts r \<noteq> [] \<and> billData r \<noteq> []
      then s\<lparr>localStorage :=
             saveCachedLayout (storageWritable s) (clock s) (accounts r) (billData r)
               (localStorage s)\<rparr>
      else s)"

section \<open>Chart aggregation adapter\<close>

text \<open>\<open>SERVICE_CHART_META\<close>: display name and fill colour per service type.\<close>

definition SERVICE_CHART_META :: "(string \<times> string) js_object" where
  "SERVICE_CHART_META =
     [(''kseb'', (''KSEB'', ''#d97706'')),
      (''kwa'', (''KWA'', ''#119bb0'')),
      (''echallan'', (''e-Challan'', ''#f59e0b'')),
      (''ksmart'', (''K-Smart'', ''#fbbf24''))]"

text \<open>\<open>SERVICE_CHART_META[type] || { name: type, fill: '#94a3b8' }\<close>\<close>

definition chart_meta :: "string \<Rightarrow> string \<times> string" where
  "chart_meta type =
     (case map_of SERVICE_CHART_META type of
        Some m \<Rightarrow> m
      | None \<Rightarrow> (type, ''#94a3b8''))"

text \<open>\<open>[...new Set(xs)]\<close>: the elements in the order of their first occurrence.\<close>

definition set_spread :: "'a list \<Rightarrow> 'a list" where
  "set_spread xs = fold (\<lambda>x seen. if x \<in> set seen then seen else seen @ [x]) xs []"

text \<open>\<open>billData[a.id]?.amount_due || 0\<close>\<close>

definition amount_or_zero :: "bill_snapshot js_object \<Rightarrow> account \<Rightarrow> int" where
  "amount_or_zero bills a =
     (case map_of bills (acc_id a) of
        None \<Rightarrow> 0
      | Some b \<Rightarrow> (case amount_due b of None \<Rightarrow> 0 | Some n \<Rightarrow> n))"

text \<open>The \<open>comparison\<close> list the \<open>catch\<close> branch of \<open>fetchChartData\<close> computes.\<close>

definition local_comparison ::
  "account list \<Rightarrow> bill_snapshot js_object \<Rightarrow> comparison_point list" where
  "local_comparison accs bills =
     map (\<lambda>type.
            \<lparr>service = fst (chart_meta type),
             amount = foldl (\<lambda>sum a. sum + amount_or_zero bills a) 0
                        (filter (\<lambda>a. service_type a = type) accs),
             fill = snd (chart_meta type)\<rparr>)
         (set_spread (map service_type accs))"

text \<open>
  The \<open>catch\<close> branch of \<open>fetchChartData\<close>; \<open>accs\<close> and \<open>bills\<close> are the
  \<open>accounts\<close> and \<open>billData\<close> of the render that started the request.
\<close>

definition fetchChartData_rejected ::
  "account list \<Rightarrow> bill_snapshot js_object \<Rightarrow> dashboard \<Rightarrow> dashboard" where
  "fetchChartData_rejected accs bills s =
     s\<lparr>comparisonData := local_comparison accs bills, trendData := [], trendLines := []\<rparr>"

text \<open>
  The \<open>try\<close> branch after the response arrived. A response whose body is \<open>null\<close>
  (\<open>None\<close>) makes \<open>data.comparison_data\<close> throw inside \<open>try\<close>, which ends in the
  \<open>catch\<close> branch.
\<close>

definition fetchChartData_resolved ::
  "account list \<Rightarrow> bill_snapshot js_object \<Rightarrow> chart_response option \<Rightarrow> dashboard \<Rightarrow> dashboard" where
  "fetchChartData_resolved accs bills body s =
     (case body of
        None \<Rightarrow> fetchChartData_rejected accs bills s
      | Some d \<Rightarrow>
          s\<lparr>comparisonData := (case comparison_data d of None \<Rightarrow> [] | Some c \<Rightarrow> c),
            trendData := (case trend_data d of None \<Rightarrow> [] | Some t \<Rightarrow> t),
            trendLines := (case trend_lines d of None \<Rightarrow> [] | Some l \<Rightarrow> l)\<rparr>)"

text \<open>
  \<open>Object.keys(billData).filter(id => !loadingAccounts[id])\<close>: the keys whose flag is
  missing or false.
\<close>

definition loadedBills :: "dashboard \<Rightarrow> string list" where
  "loadedBills r =
     filter (\<lambda>id. map_of (loadingAccounts r) id \<noteq> Some True) (map fst (billData r))"

text \<open>
  \<open>fetchChartData\<close> up to its \<open>await\<close>, the effect on
  \<open>[accounts, billData, loadingAccounts]\<close>.
\<close>

definition fetchChartData :: "dashboard \<Rightarrow> dashboard \<Rightarrow> dashboard" where
  "fetchChartData r s =
     (if accounts r = [] then s\<lparr>comparisonData := [], trendData := [], trendLines := []\<rparr>
      else if loadedBills r = [] then s
      else s\<lparr>outbox := outbox s @ [GetChartData (accounts r) (billData r)]\<rparr>)"

section \<open>Payment\<close>

text \<open>\<open>!bill.amount_due\<close>: the amount is missing or 0.\<close>

definition no_amount :: "bill_snapshot \<Rightarrow> bool" where
  "no_amount bill = (case amount_due bill of None \<Rightarrow> True | Some n \<Rightarrow> n = 0)"

definition handlePayNow :: "account \<Rightarrow> dashboard \<Rightarrow> dashboard" where
  "handlePayNow a s =
     (let s1 = s\<lparr>selectedAccount := Some a\<rparr> in
      case map_of (billData s) (acc_id a) of
        None \<Rightarrow> s1
      | Some bill \<Rightarrow>
          if status bill = ''paid'' \<or> no_amount bill then s1
          else s1\<lparr>qrCode := [], isQRModalOpen := True,
                  outbox := outbox s1 @
                    [InitiatePayment (acc_id a) (service_type a) (consumer_id a)]\<rparr>)"

text \<open>
  The \<open>then\<close> callback of \<open>paymentsApi.initiate\<close>: a non-empty \<open>qr_code_base64\<close>
  replaces the default QR code. The \<open>catch\<close> callback changes nothing.
\<close>

definition initiate_resolved :: "string option \<Rightarrow> dashboard \<Rightarrow> dashboard" where
  "initiate_resolved qr s =
     (case qr of None \<Rightarrow> s | Some c \<Rightarrow> if c = [] then s else s\<lparr>qrCode := c\<rparr>)"

text \<open>
  \<open>{...prev[accountId], amount_due: 0, status: 'paid'}\<close>: the other keys of the previous
  snapshot are kept; without a previous snapshot there are none.
\<close>

definition paid_snapshot :: "bill_snapshot option \<Rightarrow> bill_snapshot" where
  "paid_snapshot prev =
     (case prev of
        None \<Rightarrow> \<lparr>amount_due = Some 0, status = ''paid'', units_consumed = None, error = False\<rparr>
      | Some b \<Rightarrow> b\<lparr>amount_due := Some 0, status := ''paid''\<rparr>)"

definition handlePaymentComplete :: "dashboard \<Rightarrow> dashboard" where
  "handlePaymentComplete s =
     (case selectedAccount s of
        None \<Rightarrow> s
      | Some sel \<Rightarrow>
          (let accountId = acc_id sel;
               updated = AList.update accountId (paid_snapshot (map_of (billData s) accountId))
                           (billData s)
           in s\<lparr>billData := updated,
                localStorage := saveCachedLayout (storageWritable s) (clock s) (accounts s)
                                  updated (localStorage s)\<rparr>))"

text \<open>
  The "Payment Done" button of \<open>QRModal\<close>:
  \<open>if (onPaymentComplete) onPaymentComplete(); onClose()\<close>.
\<close>

definition paymentDone :: "dashboard \<Rightarrow> dashboard" where
  "paymentDone s = (handlePaymentComplete s)\<lparr>isQRModalOpen := False\<rparr>"

section \<open>Account registry\<close>

text \<open>
  \<open>loadAccounts\<close>: every account of every profile, tagged with the id of its profile.
  The \<open>catch\<close> branch only logs; \<open>finally\<close> clears \<open>initialLoading\<close>.
\<close>

definition allAccounts :: "profile list \<Rightarrow> account list" where
  "allAccounts allProfiles =
     concat (map (\<lambda>p. map (\<lambda>acc. acc\<lparr>profile_id := Some (prof_id p)\<rparr>) (prof_accounts p))
               allProfiles)"

definition loadAccounts_resolved :: "profile list \<Rightarrow> dashboard \<Rightarrow> dashboard" where
  "loadAccounts_resolved allProfiles s =
     s\<lparr>accounts := allAccounts allProfiles, initialLoading := False\<rparr>"

definition loadAccounts_rejected :: "dashboard \<Rightarrow> dashboard" where
  "loadAccounts_rejected s = s\<lparr>initialLoading := False\<rparr>"

text \<open>
  \<open>handleRemoveAccount\<close> up to its \<open>await\<close>, and its continuation. The \<open>catch\<close>
  branch only logs, so the continuation is the same whether the remote delete succeeded
  (\<open>ok\<close>) or not. \<open>accs\<close> and \<open>bills\<close> are the \<open>accounts\<close> and \<open>billData\<close> of the
  render whose handler was called; the two state updates are functional and see the
  current state.
\<close>

definition handleRemoveAccount :: "account \<Rightarrow> dashboard \<Rightarrow> dashboard" where
  "handleRemoveAccount account s =
     s\<lparr>outbox := outbox s @ [RemoveAccountRemote account (accounts s) (billData s)]\<rparr>"

definition handleRemoveAccount_settled ::
  "bool \<Rightarrow> account \<Rightarrow> account list \<Rightarrow> bill_snapshot js_object \<Rightarrow> dashboard \<Rightarrow> dashboard" where
  "handleRemoveAccount_settled ok account accs bills s =
     s\<lparr>accounts := filter (\<lambda>a. acc_id a \<noteq> acc_id account) (accounts s),
       billData := AList.delete (acc_id account) (billData s),
       localStorage :=
         saveCachedLayout (storageWritable s) (clock s)
           (filter (\<lambda>a. acc_id a \<noteq> acc_id account) accs) bills (localStorage s)\<rparr>"

text \<open>\<open>Date.now().toString()\<close>: the decimal digits of a number.\<close>

fun digits :: "nat \<Rightarrow> string" where
  "digits n =
     (if n < 10 then [char_of (48 + n)]
      else digits (n div 10) @ [char_of (48 + n mod 10)])"

definition toString :: "int \<Rightarrow> string" where
  "toString i = (if i < 0 then CHR ''-'' # digits (nat (- i)) else digits (nat i))"

text \<open>
  \<open>handleAddAccount\<close> up to its \<open>await\<close>, the rest of its \<open>try\<close> branch with the account
  the backend returned, and its \<open>catch\<close> branch, which adds the draft under a local id.
\<close>

definition handleAddAccount :: "account \<Rightarrow> dashboard \<Rightarrow> dashboard" where
  "handleAddAccount account s = s\<lparr>outbox := outbox s @ [AddAccountRemote account]\<rparr>"

definition handleAddAccount_resolved :: "account \<Rightarrow> dashboard \<Rightarrow> dashboard" where
  "handleAddAccount_resolved newAcc s =
     fetchBillForAccount newAcc (s\<lparr>accounts := accounts s @ [newAcc]\<rparr>)"

definition handleAddAccount_rejected :: "account \<Rightarrow> dashboard \<Rightarrow> dashboard" where
  "handleAddAccount_rejected account s =
     (let fallbackAcc = account\<lparr>acc_id := toString (clock s)\<rparr>
      in fetchBillForAccount fallbackAcc (s\<lparr>accounts := accounts s @ [fallbackAcc]\<rparr>))"

section \<open>Renders and effects\<close>

text \<open>
  The state variables the effects depend on, the three effects in the order of their
  declaration, and the dependency array of each.
\<close>

datatype dep = Accounts | BillData | LoadingAccounts

datatype effect = EffFetchMissing | EffPersist | EffChart

fun effect_deps :: "effect \<Rightarrow> dep list" where
  "effect_deps EffFetchMissing = [Accounts]"
| "effect_deps EffPersist = [Accounts, BillData]"
| "effect_deps EffChart = [Accounts, BillData, LoadingAccounts]"

text \<open>The effects that run after a render in which the state variables \<open>changed\<close> were set.\<close>

definition effects_for :: "dep list \<Rightarrow> effect list" where
  "effects_for changed =
     filter (\<lambda>e. list_ex (\<lambda>d. d \<in> set (effect_deps e)) changed)
       [EffFetchMissing, EffPersist, EffChart]"

fun run_effect :: "effect \<Rightarrow> dashboard \<Rightarrow> dashboard \<Rightarrow> dashboard" where
  "run_effect EffFetchMissing r s = effect_fetchMissing r s"
| "run_effect EffPersist r s = effect_persist r s"
| "run_effect EffChart r s = fetchChartData r s"

definition run_effects :: "dep list \<Rightarrow> dashboard \<Rightarrow> dashboard" where
  "run_effects changed r = fold (\<lambda>e. run_effect e r) (effects_for changed) r"

text \<open>
  One commit: state updates of one handler are batched into one render \<open>r\<close>, whose effects
  all close over \<open>r\<close>. When the effect on \<open>[accounts]\<close> started a fetch it has set
  \<open>loadingAccounts\<close>, which renders once more and re-runs the effects that depend on it.
\<close>

definition commit :: "dep list \<Rightarrow> dashboard \<Rightarrow> dashboard" where
  "commit changed r =
     (let s = run_effects changed r
      in if EffFetchMissing \<in> set (effects_for changed) \<and> accountsNeedingFetch r \<noteq> []
         then run_effects [LoadingAccounts] s
         else s)"

text \<open>
  The first render: state seeded from the cache (\<open>cachedLayout?.accounts || []\<close>), then
  every effect runs once; the mount effect starts \<open>loadAccounts\<close>.
\<close>

definition initial :: "cache_storage \<Rightarrow> int \<Rightarrow> bool \<Rightarrow> dashboard" where
  "initial store now writable =
     (let cachedLayout = loadCachedLayout store now in
      \<lparr>accounts = (case cachedLayout of None \<Rightarrow> [] | Some c \<Rightarrow> cache_accounts c),
       billData = (case cachedLayout of None \<Rightarrow> [] | Some c \<Rightarrow> cache_billData c),
       loadingAccounts = [],
       selectedAccount = None,
       isQRModalOpen = False,
       qrCode = [],
       comparisonData = [],
       trendData = [],
       trendLines = [],
       initialLoading = (cachedLayout = None),
       localStorage = store,
       clock = now,
       storageWritable = writable,
       outbox = []\<rparr>)"

definition mount :: "cache_storage \<Rightarrow> int \<Rightarrow> bool \<Rightarrow> dashboard" where
  "mount store now writable =
     commit [Accounts, BillData, LoadingAccounts]
       ((initial store now writable)\<lparr>initialLoading := True, outbox := [GetProfiles]\<rparr>)"

section \<open>Events of the dashboard\<close>

text \<open>
  What can happen to a mounted dashboard: the user presses a button, or a request in
  flight settles. A settling request carries the closure of its continuation.
\<close>

datatype event =
    ProfilesResolved "profile list"
  | ProfilesRejected
  | Refresh account
  | BillResolved account bill_response
  | BillRejected account
  | ChartResolved "account list" "bill_snapshot js_object" "chart_response option"
  | ChartRejected "account list" "bill_snapshot js_object"
  | PayNow account
  | InitiateResolved string string string "string option"
  | InitiateRejected string string string
  | PaymentDone
  | CloseQR
  | Remove account
  | RemoveSettled bool account "account list" "bill_snapshot js_object"
  | Add account
  | AddResolved account account
  | AddRejected account
  | Elapse nat

text \<open>A request settles only while it is in flight; it then leaves the outbox.\<close>

definition settle :: "request \<Rightarrow> dashboard \<Rightarrow> dashboard option" where
  "settle q s =
     (if q \<in> set (outbox s) then Some (s\<lparr>outbox := remove1 q (outbox s)\<rparr>) else None)"

text \<open>
  The cards are rendered once \<open>initialLoading\<close> is over, one per account; the refresh
  button of a card is disabled while its account loads, and "Pay Now" is shown unless the
  snapshot says \<open>paid\<close>.
\<close>

definition card_shown :: "account \<Rightarrow> dashboard \<Rightarrow> bool" where
  "card_shown a s \<longleftrightarrow> \<not> initialLoading s \<and> a \<in> set (accounts s)"

definition shows_paid :: "account \<Rightarrow> dashboard \<Rightarrow> bool" where
  "shows_paid a s =
     (case map_of (billData s) (acc_id a) of None \<Rightarrow> False | Some b \<Rightarrow> status b = ''paid'')"

text \<open>
  The handler or continuation of an event, without the effects that follow it.
  \<open>None\<close> when the event cannot happen in this state.
\<close>

fun handle :: "event \<Rightarrow> dashboard \<Rightarrow> dashboard option" where
  "handle (ProfilesResolved ps) s = map_option (loadAccounts_resolved ps) (settle GetProfiles s)"
| "handle ProfilesRejected s = map_option loadAccounts_rejected (settle GetProfiles s)"
| "handle (Refresh a) s =
     (if card_shown a s \<and> map_of (loadingAccounts s) (acc_id a) \<noteq> Some True
      then Some (handleRefresh a s) else None)"
| "handle (BillResolved a d) s = map_option (fetchBill_resolved a d) (settle (FetchBill a) s)"
| "handle (BillRejected a) s = map_option (fetchBill_rejected a) (settle (FetchBill a) s)"
| "handle (ChartResolved accs bills body) s =
     map_option (fetchChartData_resolved accs bills body) (settle (GetChartData accs bills) s)"
| "handle (ChartRejected accs bills) s =
     map_option (fetchChartData_rejected accs bills) (settle (GetChartData accs bills) s)"
| "handle (PayNow a) s =
     (if card_shown a s \<and> \<not> shows_paid a s then Some (handlePayNow a s) else None)"
| "handle (InitiateResolved i t c qr) s =
     map_option (initiate_resolved qr) (settle (InitiatePayment i t c) s)"
| "handle (InitiateRejected i t c) s = settle (InitiatePayment i t c) s"
| "handle PaymentDone s = (if isQRModalOpen s then Some (paymentDone s) else None)"
| "handle CloseQR s = (if isQRModalOpen s then Some (s\<lparr>isQRModalOpen := False\<rparr>) else None)"
| "handle (Remove a) s = (if card_shown a s then Some (handleRemoveAccount a s) else None)"
| "handle (RemoveSettled ok a accs bills) s =
     map_option (handleRemoveAccount_settled ok a accs bills)
       (settle (RemoveAccountRemote a accs bills) s)"
| "handle (Add draft) s = Some (handleAddAccount draft s)"
| "handle (AddResolved draft newAcc) s =
     map_option (handleAddAccount_resolved newAcc) (settle (AddAccountRemote draft) s)"
| "handle (AddRejected draft) s =
     map_option (handleAddAccount_rejected draft) (settle (AddAccountRemote draft) s)"
| "handle (Elapse ms) s = Some (s\<lparr>clock := clock s + int ms\<rparr>)"

text \<open>
  The state variables among \<open>accounts\<close>, \<open>billData\<close> and \<open>loadingAccounts\<close> whose
  setter the handler of an event calls.
\<close>

fun sets :: "event \<Rightarrow> dashboard \<Rightarrow> dep list" where
  "sets (ProfilesResolved ps) s = [Accounts]"
| "sets (Refresh a) s = [LoadingAccounts]"
| "sets (BillResolved a d) s = [BillData, LoadingAccounts]"
| "sets (BillRejected a) s = [BillData, LoadingAccounts]"
| "sets PaymentDone s = (if selectedAccount s = None then [] else [BillData])"
| "sets (RemoveSettled ok a accs bills) s = [Accounts, BillData]"
| "sets (AddResolved draft newAcc) s = [Accounts, LoadingAccounts]"
| "sets (AddRejected draft) s = [Accounts, LoadingAccounts]"
| "sets e s = []"

text \<open>One event: the handler, then the commit of what it set.\<close>

definition step :: "event \<Rightarrow> dashboard \<Rightarrow> dashboard option" where
  "step e s = map_option (commit (sets e s)) (handle e s)"

fun run :: "event list \<Rightarrow> dashboard \<Rightarrow> dashboard option" where
  "run [] s = Some s"
| "run (e # es) s = (case step e s of None \<Rightarrow> None | Some s' \<Rightarrow> run es s')"


section \<open>Incident reporting (pages/DisasterSentinel.jsx, pages/Sentinel.jsx)\<close>

text \<open>
  The report form of both pages has the same state and the same \<open>handleAnalyze\<close>; the pages
  differ in the endpoint and in the lists they reload after a success. Coordinates are
  JavaScript numbers; they are integers here (fixed point), the code only tests them for
  being absent or 0.
\<close>

record location =
  latitude :: int
  longitude :: int
  accuracy :: int

text \<open>The body both \<open>analyzeIncident\<close> and \<open>analyzeViolation\<close> post.\<close>

record analysis_request =
  image_base64 :: "string option"
  device_latitude :: "int option"
  device_longitude :: "int option"

text \<open>
  What \<open>analysisResult\<close> holds: \<open>success\<close>, an error message, and the incident or
  report of the backend, kept as text.
\<close>

record analysis_result =
  success :: bool
  error_message :: "string option"
  payload :: "string option"

text \<open>
  Operations in flight, with what their callbacks close over: the geolocation request of
  the mount effect, the two \<open>FileReader\<close> reads (preview; analysis, whose \<open>onload\<close> closes
  over the \<open>deviceLocation\<close> of the render that called \<open>handleAnalyze\<close>), the analysis
  request, and the reloads after a success.
\<close>

datatype page_request =
    Geolocate
  | ReadPreview string
  | ReadForAnalysis string "location option"
  | AnalyzePost analysis_request
  | Reload

record report_page =
  selectedImage :: "string option"
  imagePreview :: "string option"
  analysisResult :: "analysis_result option"
  isAnalyzing :: bool
  deviceLocation :: "location option"
  locationError :: "string option"
  page_outbox :: "page_request list"

text \<open>The first render; the mount effect asks for the position when geolocation exists.\<close>

definition page_mount :: "bool \<Rightarrow> report_page" where
  "page_mount has_geolocation =
     \<lparr>selectedImage = None, imagePreview = None, analysisResult = None, isAnalyzing = False,
      deviceLocation = None, locationError = None,
      page_outbox = (if has_geolocation then [Geolocate] else [])\<rparr>"

definition geolocation_success :: "location \<Rightarrow> report_page \<Rightarrow> report_page" where
  "geolocation_success position s = s\<lparr>deviceLocation := Some position, locationError := None\<rparr>"

definition geolocation_error :: "string \<Rightarrow> report_page \<Rightarrow> report_page" where
  "geolocation_error message s = s\<lparr>locationError := Some message\<rparr>"

definition handleImageSelect :: "string option \<Rightarrow> report_page \<Rightarrow> report_page" where
  "handleImageSelect file s =
     (case file of
        None \<Rightarrow> s
      | Some f \<Rightarrow> s\<lparr>selectedImage := Some f, analysisResult := None,
                    page_outbox := page_outbox s @ [ReadPreview f]\<rparr>)"

definition clearForm :: "report_page \<Rightarrow> report_page" where
  "clearForm s = s\<lparr>selectedImage := None, imagePreview := None, analysisResult := None\<rparr>"

text \<open>\<open>x || null\<close> on a coordinate: absent and 0 both give \<open>null\<close>.\<close>

definition or_null :: "int option \<Rightarrow> int option" where
  "or_null x = (case x of None \<Rightarrow> None | Some n \<Rightarrow> if n = 0 then None else Some n)"

text \<open>\<open>s.split(',')[1]\<close>: the text between the first and the second comma, if any.\<close>

definition split_comma_1 :: "string \<Rightarrow> string option" where
  "split_comma_1 s =
     (case dropWhile (\<lambda>c. c \<noteq> CHR '','') s of
        [] \<Rightarrow> None
      | _ # rest \<Rightarrow> Some (takeWhile (\<lambda>c. c \<noteq> CHR '','') rest))"

definition analysis_failed :: analysis_result where
  "analysis_failed =
     \<lparr>success = False, error_message = Some ''Analysis failed. Please try again.'',
      payload = None\<rparr>"

text \<open>
  \<open>handleAnalyze\<close> up to the end of its \<open>try\<close> statement. The \<open>try\<close> block only installs
  \<open>onload\<close> and starts the read, so its \<open>catch\<close> branch runs only when that throws
  (\<open>reader_throws\<close>).
\<close>

definition handleAnalyze :: "bool \<Rightarrow> report_page \<Rightarrow> report_page" where
  "handleAnalyze reader_throws s =
     (case selectedImage s of
        None \<Rightarrow> s
      | Some f \<Rightarrow>
          if reader_throws
          then s\<lparr>analysisResult := Some analysis_failed, isAnalyzing := False\<rparr>
          else s\<lparr>isAnalyzing := True,
                 page_outbox := page_outbox s @ [ReadForAnalysis f (deviceLocation s)]\<rparr>)"

text \<open>The \<open>onload\<close> callback up to its \<open>await\<close>: the request leaves.\<close>

definition reader_onload :: "string \<Rightarrow> location option \<Rightarrow> report_page \<Rightarrow> report_page" where
  "reader_onload dataUrl loc s =
     s\<lparr>page_outbox := page_outbox s @
         [AnalyzePost \<lparr>image_base64 = split_comma_1 dataUrl,
                       device_latitude = or_null (map_option latitude loc),
                       device_longitude = or_null (map_option longitude loc)\<rparr>]\<rparr>"

text \<open>
  The rest of the \<open>onload\<close> callback once the request resolved. A response whose body is
  \<open>null\<close> (\<open>None\<close>) makes \<open>data.success\<close> throw after \<open>setAnalysisResult(data)\<close>.
  The callback has no \<open>catch\<close>: when the request is rejected nothing more of it runs.
\<close>

definition analyze_resolved :: "analysis_result option \<Rightarrow> report_page \<Rightarrow> report_page" where
  "analyze_resolved data s =
     (case data of
        None \<Rightarrow> s\<lparr>analysisResult := None\<rparr>
      | Some d \<Rightarrow>
          s\<lparr>analysisResult := Some d, isAnalyzing := False,
            page_outbox := page_outbox s @ (if success d then [Reload] else [])\<rparr>)"

definition analyze_rejected :: "report_page \<Rightarrow> report_page" where
  "analyze_rejected s = s"

datatype page_event =
    GeoPosition location
  | GeoError string
  | ImageSelect "string option"
  | PreviewLoaded string string
  | ClearForm
  | Analyze bool
  | ReaderLoaded string "location option" string
  | AnalyzeResolved analysis_request "analysis_result option"
  | AnalyzeRejected analysis_request
  | ReloadSettled

definition page_settle :: "page_request \<Rightarrow> report_page \<Rightarrow> report_page option" where
  "page_settle q s =
     (if q \<in> set (page_outbox s)
      then Some (s\<lparr>page_outbox := remove1 q (page_outbox s)\<rparr>) else None)"

text \<open>
  One event of the report form. The analyse button is disabled while \<open>isAnalyzing\<close> holds
  (and, on the disaster page, without an image).
\<close>

fun page_step :: "page_event \<Rightarrow> report_page \<Rightarrow> report_page option" where
  "page_step (GeoPosition p) s = map_option (geolocation_success p) (page_settle Geolocate s)"
| "page_step (GeoError m) s = map_option (geolocation_error m) (page_settle Geolocate s)"
| "page_step (ImageSelect f) s = Some (handleImageSelect f s)"
| "page_step (PreviewLoaded f url) s =
     map_option (\<lambda>s'. s'\<lparr>imagePreview := Some url\<rparr>) (page_settle (ReadPreview f) s)"
| "page_step ClearForm s = Some (clearForm s)"
| "page_step (Analyze reader_throws) s =
     (if isAnalyzing s then None else Some (handleAnalyze reader_throws s))"
| "page_step (ReaderLoaded f loc url) s =
     map_option (reader_onload url loc) (page_settle (ReadForAnalysis f loc) s)"
| "page_step (AnalyzeResolved q data) s =
     map_option (analyze_resolved data) (page_settle (AnalyzePost q) s)"
| "page_step (AnalyzeRejected q) s = map_option analyze_rejected (page_settle (AnalyzePost q) s)"
| "page_step ReloadSettled s = page_settle Reload s"

fun page_run :: "page_event list \<Rightarrow> report_page \<Rightarrow> report_page option" where
  "page_run [] s = Some s"
| "page_run (e # es) s = (case page_step e s of None \<Rightarrow> None | Some s' \<Rightarrow> page_run es s')"

section \<open>Example data\<close>

text \<open>Two accounts of one profile, and states of a dashboard showing them.\<close>

definition ex_power :: account where
  "ex_power =
     \<lparr>acc_id = ''a1'', service_type = ''kseb'', consumer_id = ''1001'', label = ''Home power'',
      profile_id = Some ''p1'', number_plate = None\<rparr>"

definition ex_water :: account where
  "ex_water =
     \<lparr>acc_id = ''b2'', service_type = ''kwa'', consumer_id = ''2002'', label = ''Home water'',
      profile_id = Some ''p1'', number_plate = None\<rparr>"

definition ex_home :: profile where
  "ex_home = \<lparr>prof_id = ''p1'', prof_name = ''Home'', prof_accounts = [ex_power, ex_water]\<rparr>"

definition ex_unpaid :: bill_response where
  "ex_unpaid = \<lparr>resp_status = ''unpaid'', resp_amount_due = Some 500, resp_units_consumed = Some 42\<rparr>"

text \<open>The power bill is loaded and unpaid, the water bill is being fetched.\<close>

definition ex_dashboard :: dashboard where
  "ex_dashboard =
     \<lparr>accounts = [ex_power, ex_water],
      billData = [(''a1'', snapshot_of_response ex_unpaid)],
      loadingAccounts = [(''a1'', False), (''b2'', True)],
      selectedAccount = None,
      isQRModalOpen = False,
      qrCode = [],
      comparisonData = [],
      trendData = [],
      trendLines = [],
      initialLoading = False,
      localStorage = NoItem,
      clock = 1000,
      storageWritable = True,
      outbox = [FetchBill ex_water]\<rparr>"

text \<open>The same dashboard with the payment modal open for the power bill.\<close>

definition ex_paying :: dashboard where
  "ex_paying = ex_dashboard\<lparr>selectedAccount := Some ex_power, isQRModalOpen := True\<rparr>"

text \<open>The same dashboard after "Remove" was pressed on the water card.\<close>

definition ex_removing :: dashboard where
  "ex_removing = handleRemoveAccount ex_water ex_dashboard"




text \<open>
  A report form with an image selected and geolocation denied, after the analysis request
  was rejected: nothing is in flight any more.
\<close>

definition ex_stuck :: report_page where
  "ex_stuck =
     \<lparr>selectedImage = Some ''photo.jpg'',
      imagePreview = Some ''data:image/jpeg;base64,QUJD'',
      analysisResult = None, isAnalyzing = True, deviceLocation = None,
      locationError = Some ''User denied Geolocation'', page_outbox = []\<rparr>"

text \<open>No read for an analysis and no analysis request is in flight.\<close>

definition no_analysis_pending :: "report_page \<Rightarrow> bool" where
  "no_analysis_pending s =
     list_all (\<lambda>q. case q of ReadForAnalysis f loc \<Rightarrow> False | AnalyzePost r \<Rightarrow> False | _ \<Rightarrow> True)
       (page_outbox s)"

section \<open>Effects leave the bill store alone\<close>

lemma billData_fold_fetch [simp]:
  "billData (fold fetchBillForAccount xs s) = billData s"
  by (induction xs arbitrary: s) (simp_all add: fetchBillForAccount_def)

lemma billData_run_effect [simp]: "billData (run_effect e r s) = billData s"
  by (cases e) (simp_all add: effect_fetchMissing_def effect_persist_def fetchChartData_def)

lemma billData_fold_effects [simp]:
  "billData (fold (\<lambda>e. run_effect e r) es s) = billData s"
  by (induction es arbitrary: s) simp_all

lemma billData_commit [simp]: "billData (commit changed r) = billData r"
  by (simp add: commit_def run_effects_def Let_def)

lemma effects_for_simps:
  "effects_for [] = []"
  "effects_for [Accounts] = [EffFetchMissing, EffPersist, EffChart]"
  "effects_for [LoadingAccounts] = [EffChart]"
  "effects_for [BillData] = [EffPersist, EffChart]"
  "effects_for [BillData, LoadingAccounts] = [EffPersist, EffChart]"
  "effects_for [Accounts, BillData] = [EffFetchMissing, EffPersist, EffChart]"
  "effects_for [Accounts, LoadingAccounts] = [EffFetchMissing, EffPersist, EffChart]"
  "effects_for [Accounts, BillData, LoadingAccounts] = [EffFetchMissing, EffPersist, EffChart]"
  by (simp_all add: effects_for_def)

lemma commit_Nil [simp]: "commit [] r = r"
  by (simp add: commit_def run_effects_def effects_for_simps)

lemma accounts_fold_fetch [simp]:
  "accounts (fold fetchBillForAccount xs s) = accounts s"
  by (induction xs arbitrary: s) (simp_all add: fetchBillForAccount_def)

lemma accounts_run_effect [simp]: "accounts (run_effect e r s) = accounts s"
  by (cases e) (simp_all add: effect_fetchMissing_def effect_persist_def fetchChartData_def)

lemma accounts_fold_effects [simp]:
  "accounts (fold (\<lambda>e. run_effect e r) es s) = accounts s"
  by (induction es arbitrary: s) simp_all

lemma accounts_commit [simp]: "accounts (commit changed r) = accounts r"
  by (simp add: commit_def run_effects_def Let_def)

text \<open>The only loading flags an effect touches are those of the accounts it fetches.\<close>

lemma loading_fold_fetch:
  "map_of (loadingAccounts (fold fetchBillForAccount xs s)) k =
     (if k \<in> acc_id ` set xs then Some True else map_of (loadingAccounts s) k)"
  by (induction xs arbitrary: s) (auto simp: fetchBillForAccount_def update_conv')

lemma loading_run_effect:
  "map_of (loadingAccounts (run_effect e r s)) k =
     (if e = EffFetchMissing \<and> k \<in> acc_id ` set (accountsNeedingFetch r) then Some True
      else map_of (loadingAccounts s) k)"
  by (cases e) (simp_all add: effect_fetchMissing_def effect_persist_def fetchChartData_def
        loading_fold_fetch)

lemma loading_fold_effects:
  "map_of (loadingAccounts (fold (\<lambda>e. run_effect e r) es s)) k =
     (if EffFetchMissing \<in> set es \<and> k \<in> acc_id ` set (accountsNeedingFetch r) then Some True
      else map_of (loadingAccounts s) k)"
  by (induction es arbitrary: s) (auto simp: loading_run_effect simp del: run_effect.simps)

lemma loading_commit:
  "map_of (loadingAccounts (commit changed r)) k =
     (if EffFetchMissing \<in> set (effects_for changed) \<and> k \<in> acc_id ` set (accountsNeedingFetch r)
      then Some True else map_of (loadingAccounts r) k)"
  by (auto simp: commit_def run_effects_def Let_def loading_fold_effects effects_for_simps
        fetchChartData_def)

text \<open>After a render that only set \<open>billData\<close>, the layout is persisted when there is one.\<close>

lemma localStorage_commit_BillData:
  "localStorage (commit [BillData] r) =
     (if accounts r \<noteq> [] \<and> billData r \<noteq> []
      then saveCachedLayout (storageWritable r) (clock r) (accounts r) (billData r) (localStorage r)
      else localStorage r)"
  by (simp add: commit_def run_effects_def effects_for_simps effect_persist_def fetchChartData_def)

text \<open>Whenever a dependency of the effects was set, the chart adapter runs, and runs last.\<close>

lemma effects_for_ends_with_chart:
  "changed \<noteq> [] \<Longrightarrow>
   effects_for changed =
     filter (\<lambda>e. list_ex (\<lambda>d. d \<in> set (effect_deps e)) changed) [EffFetchMissing, EffPersist]
     @ [EffChart]"
proof -
  assume "changed \<noteq> []"
  then obtain d ds where "changed = d # ds" by (cases changed) auto
  then have "list_ex (\<lambda>d. d \<in> set (effect_deps EffChart)) changed"
    by (cases d) simp_all
  then show ?thesis by (simp add: effects_for_def)
qed

lemma run_effects_ends_with_chart:
  "changed \<noteq> [] \<Longrightarrow> \<exists>s1. run_effects changed r = fetchChartData r s1"
  by (simp add: run_effects_def effects_for_ends_with_chart del: filter.simps) blast


lemma distinct_effects_for [simp]: "distinct (effects_for changed)"
  by (simp add: effects_for_def)

text \<open>A handler that changes one of the three state variables has called its setter.\<close>

lemma handle_sets:
  assumes "handle e s = Some r"
    and "accounts r \<noteq> accounts s \<or> billData r \<noteq> billData s \<or>
         loadingAccounts r \<noteq> loadingAccounts s"
  shows "sets e s \<noteq> []"
  using assms
  by (cases e)
     (auto simp: settle_def loadAccounts_rejected_def fetchChartData_resolved_def
        fetchChartData_rejected_def handlePayNow_def initiate_resolved_def paymentDone_def
        handlePaymentComplete_def handleRemoveAccount_def handleAddAccount_def Let_def
        split: if_splits option.splits)

lemma loadedBills_Nil_iff:
  "loadedBills r = [] \<longleftrightarrow>
     (\<forall>id \<in> set (map fst (billData r)). map_of (loadingAccounts r) id = Some True)"
  by (auto simp: loadedBills_def filter_empty_conv)

section \<open>Requests the handlers and effects send\<close>


lemma count_map_FetchBill [simp]: "count_list (map FetchBill xs) (FetchBill a) = count_list xs a"
  by (induction xs) simp_all






lemma outbox_continuations [simp]:
  "outbox (fetchBill_resolved a d s) = outbox s"
  "outbox (fetchBill_rejected a s) = outbox s"
  "outbox (fetchChartData_resolved accs bills body s) = outbox s"
  "outbox (fetchChartData_rejected accs bills s) = outbox s"
  "outbox (initiate_resolved qr s) = outbox s"
  "outbox (paymentDone s) = outbox s"
  "outbox (loadAccounts_resolved ps s) = outbox s"
  "outbox (loadAccounts_rejected s) = outbox s"
  by (simp_all add: fetchBill_resolved_def fetchBill_rejected_def fetchChartData_resolved_def
        fetchChartData_rejected_def initiate_resolved_def paymentDone_def
        handlePaymentComplete_def loadAccounts_resolved_def loadAccounts_rejected_def Let_def
        split: option.splits)

lemma count_FetchBill_handlers [simp]:
  "count_list (outbox (handlePayNow b s)) (FetchBill a) = count_list (outbox s) (FetchBill a)"
  "count_list (outbox (handleRemoveAccount b s)) (FetchBill a) = count_list (outbox s) (FetchBill a)"
  "count_list (outbox (handleAddAccount b s)) (FetchBill a) = count_list (outbox s) (FetchBill a)"
  by (simp_all add: handlePayNow_def handleRemoveAccount_def handleAddAccount_def Let_def
        split: option.splits)



section \<open>The comparison series computed locally\<close>

lemma set_spread_acc:
  "set (fold (\<lambda>x seen. if x \<in> set seen then seen else seen @ [x]) xs acc) = set acc \<union> set xs"
  by (induction xs arbitrary: acc) auto

lemma distinct_spread_acc:
  "distinct acc \<Longrightarrow>
   distinct (fold (\<lambda>x seen. if x \<in> set seen then seen else seen @ [x]) xs acc)"
  by (induction xs arbitrary: acc) auto

lemma set_set_spread [simp]: "set (set_spread xs) = set xs"
  by (simp add: set_spread_def set_spread_acc)

lemma distinct_set_spread [simp]: "distinct (set_spread xs)"
  by (simp add: set_spread_def distinct_spread_acc)

lemma foldl_plus_sum_list:
  "foldl (\<lambda>sum a. sum + f a) z xs = z + sum_list (map f xs)" for z :: int
  by (induction xs arbitrary: z) simp_all

section \<open>A report form that stays in analysis\<close>

lemma remove1_no_analysis:
  "list_all P xs \<Longrightarrow> list_all P (remove1 q xs)"
  by (induction xs) auto

lemma page_step_stuck:
  assumes "page_step e s = Some s'" and "isAnalyzing s" and "no_analysis_pending s"
  shows "isAnalyzing s' \<and> no_analysis_pending s'"
proof (cases e)
  case (ReaderLoaded f loc url)
  with assms show ?thesis
    by (auto simp: page_settle_def no_analysis_pending_def list_all_iff split: if_splits)
next
  case (AnalyzeResolved q d)
  with assms show ?thesis
    by (auto simp: page_settle_def no_analysis_pending_def list_all_iff split: if_splits)
next
  case (AnalyzeRejected q)
  with assms show ?thesis
    by (auto simp: page_settle_def no_analysis_pending_def list_all_iff split: if_splits)
qed (use assms in \<open>auto simp: page_settle_def no_analysis_pending_def geolocation_success_def
      geolocation_error_def handleImageSelect_def clearForm_def remove1_no_analysis
      split: if_splits option.splits\<close>)

lemma page_run_stuck:
  "page_run es s = Some s' \<Longrightarrow> isAnalyzing s \<Longrightarrow> no_analysis_pending s \<Longrightarrow> isAnalyzing s'"
proof (induction es arbitrary: s)
  case Nil
  then show ?case by simp
next
  case (Cons e es)
  then obtain s1 where "page_step e s = Some s1" "page_run es s1 = Some s'"
    by (auto split: option.splits)
  with Cons page_step_stuck [of e s s1] show ?case by blast
qed

section \<open>Bill fetch failure\<close>

text \<open>
  C1. When the bill fetch of account \<open>a\<close> fails, the snapshot of \<open>a\<close> becomes
  \<open>{amount_due: 0, status: 'unknown', error: true}\<close> and the snapshot of every other
  account id is what it was. Stated for the whole event: the \<open>catch\<close> and \<open>finally\<close>
  branches of \<open>fetchBillForAccount\<close> and the effects that follow.
\<close>

theorem fetch_failure_isolated:
  assumes "step (BillRejected a) s = Some s'"
  shows "map_of (billData s') (acc_id a)
           = Some \<lparr>amount_due = Some 0, status = ''unknown'', units_consumed = None, error = True\<rparr>
         \<and> (\<forall>b. b \<noteq> acc_id a \<longrightarrow> map_of (billData s') b = map_of (billData s) b)"
  using assms
  by (auto simp: step_def settle_def fetchBill_rejected_def error_snapshot_def update_conv'
           split: if_splits)

theorem fetch_failure_isolated_witness:
  "\<exists>s'. step (BillRejected ex_water) ex_dashboard = Some s' \<and>
     map_of (billData s') ''b2''
       = Some \<lparr>amount_due = Some 0, status = ''unknown'', units_consumed = None, error = True\<rparr> \<and>
     map_of (billData s') ''a1''
       = Some \<lparr>amount_due = Some 500, status = ''unpaid'', units_consumed = Some 42, error = False\<rparr>"
proof -
  obtain s' where en: "step (BillRejected ex_water) ex_dashboard = Some s'"
    by (simp add: step_def settle_def ex_dashboard_def)
  have old: "map_of (billData ex_dashboard) ''a1''
     = Some \<lparr>amount_due = Some 500, status = ''unpaid'', units_consumed = Some 42, error = False\<rparr>"
    by (simp add: ex_dashboard_def ex_unpaid_def snapshot_of_response_def)
  have id: "acc_id ex_water = ''b2''" by (simp add: ex_water_def)
  from fetch_failure_isolated [OF en] old id en show ?thesis by simp
qed

section \<open>Freshness of the layout cache\<close>

text \<open>
  C5, as the claim states it, fails at the boundary: a well-formed entry written exactly
  24 hours ago is not older than 24 hours, yet \<open>loadCachedLayout\<close> returns \<open>null\<close>.
\<close>

theorem cache_boundary_counterexample:
  "\<not> (86401000 - 1000 > (24 * 60 * 60 * 1000 :: int)) \<and>
   loadCachedLayout
     (JsonObject \<lparr>cache_accounts = [], cache_billData = [], timestamp = Some 1000\<rparr>)
     86401000 = None"
  by (simp add: CACHE_WINDOW_MS_def)

text \<open>
  C5, amended. \<open>loadCachedLayout\<close> returns the stored entry exactly when it is a parsed
  object with a timestamp other than 0 that is less than 24 hours (86400000 ms) old; it
  returns \<open>null\<close> in every other case: storage failure, no item, unparseable text, no
  timestamp, timestamp 0, or an age of 24 hours or more.
\<close>

theorem loadCachedLayout_fresh_only:
  "(loadCachedLayout store now = Some d \<longleftrightarrow>
      store = JsonObject d \<and>
      (\<exists>t. timestamp d = Some t \<and> t \<noteq> 0 \<and> now - t < 86400000)) \<and>
   (loadCachedLayout store now = None \<longleftrightarrow>
      (\<forall>d. store = JsonObject d \<longrightarrow>
         timestamp d = None \<or> timestamp d = Some 0 \<or>
         (\<exists>t. timestamp d = Some t \<and> now - t \<ge> 86400000)))"
  by (cases store) (auto simp: CACHE_WINDOW_MS_def split: option.splits)

theorem loadCachedLayout_fresh_only_witness:
  "loadCachedLayout
     (JsonObject \<lparr>cache_accounts = [], cache_billData = [], timestamp = Some 1000\<rparr>)
     86400999
   = Some \<lparr>cache_accounts = [], cache_billData = [], timestamp = Some 1000\<rparr> \<and>
   loadCachedLayout JsonNull 5 = None"
  using loadCachedLayout_fresh_only
    [of "JsonObject \<lparr>cache_accounts = [], cache_billData = [], timestamp = Some 1000\<rparr>"
        86400999 "\<lparr>cache_accounts = [], cache_billData = [], timestamp = Some 1000\<rparr>"]
    loadCachedLayout_fresh_only [of JsonNull 5]
  by simp

section \<open>Optimistic payment\<close>

text \<open>
  C2. With account \<open>a\<close> selected, \<open>handlePaymentComplete\<close> gives the snapshot of \<open>a\<close>
  amount due 0 and status \<open>paid\<close>. It is a function of the current state alone: it sends
  no request and settles none (the outbox is untouched), and the "Payment Done" button
  that calls it works whatever is in flight. The same update writes the accounts and the
  updated bill store to the layout cache (when the storage accepts the write; a refused
  write is swallowed by \<open>saveCachedLayout\<close>), and the effects that follow leave that
  entry and the bill store as they are.
\<close>

theorem payment_complete_optimistic:
  assumes "selectedAccount s = Some a"
  shows "(\<exists>b. map_of (billData (handlePaymentComplete s)) (acc_id a) = Some b \<and>
              amount_due b = Some 0 \<and> status b = ''paid'') \<and>
         outbox (handlePaymentComplete s) = outbox s \<and>
         (storageWritable s \<longrightarrow>
            localStorage (handlePaymentComplete s) =
              JsonObject \<lparr>cache_accounts = accounts s,
                          cache_billData = billData (handlePaymentComplete s),
                          timestamp = Some (clock s)\<rparr>) \<and>
         (isQRModalOpen s \<longrightarrow>
            (\<exists>s'. step PaymentDone s = Some s' \<and>
                  billData s' = billData (handlePaymentComplete s) \<and>
                  localStorage s' = localStorage (handlePaymentComplete s)))"
proof -
  let ?h = "handlePaymentComplete s"
  let ?b = "paid_snapshot (map_of (billData s) (acc_id a))"
  have bill: "map_of (billData ?h) (acc_id a) = Some ?b"
    using assms by (simp add: handlePaymentComplete_def Let_def update_conv')
  have paid: "amount_due ?b = Some 0 \<and> status ?b = ''paid''"
    by (simp add: paid_snapshot_def split: option.splits)
  have out: "outbox ?h = outbox s"
    using assms by (simp add: handlePaymentComplete_def Let_def)
  have cache: "storageWritable s \<Longrightarrow>
      localStorage ?h = JsonObject \<lparr>cache_accounts = accounts s, cache_billData = billData ?h,
                                    timestamp = Some (clock s)\<rparr>"
    using assms by (simp add: handlePaymentComplete_def Let_def saveCachedLayout_def)
  have st: "isQRModalOpen s \<Longrightarrow> step PaymentDone s = Some (commit [BillData] (paymentDone s))"
    using assms by (simp add: step_def)
  have after: "localStorage (commit [BillData] (paymentDone s)) = localStorage ?h"
    using assms
    by (simp add: localStorage_commit_BillData paymentDone_def handlePaymentComplete_def Let_def
          saveCachedLayout_def)
  have "billData (commit [BillData] (paymentDone s)) = billData ?h"
    by (simp add: paymentDone_def)
  with bill paid out cache st after show ?thesis by auto
qed

theorem payment_complete_optimistic_witness:
  "(\<exists>b. map_of (billData (handlePaymentComplete ex_paying)) ''a1'' = Some b \<and>
        amount_due b = Some 0 \<and> status b = ''paid'') \<and>
   localStorage (handlePaymentComplete ex_paying) =
     JsonObject \<lparr>cache_accounts = [ex_power, ex_water],
                 cache_billData = billData (handlePaymentComplete ex_paying),
                 timestamp = Some 1000\<rparr> \<and>
   (\<exists>s'. step PaymentDone ex_paying = Some s' \<and>
         billData s' = billData (handlePaymentComplete ex_paying))"
proof -
  have sel: "selectedAccount ex_paying = Some ex_power"
    by (simp add: ex_paying_def)
  have facts: "acc_id ex_power = ''a1''" "storageWritable ex_paying" "isQRModalOpen ex_paying"
      "accounts ex_paying = [ex_power, ex_water]" "clock ex_paying = 1000"
    by (simp_all add: ex_paying_def ex_dashboard_def ex_power_def)
  from payment_complete_optimistic [OF sel] facts show ?thesis by auto
qed

section \<open>Payment guard\<close>

text \<open>
  C10. \<open>handlePayNow\<close> only records the selected account (the modal flag, the QR code and
  the outbox stay as they are, so no modal opens and no \<open>payments/initiate\<close> request
  leaves) whenever the account has no snapshot, its status is \<open>paid\<close>, or its amount due
  is missing or 0. The snapshot a failed fetch writes is such a snapshot. In every other
  case the modal opens and the request leaves.
\<close>

theorem pay_now_guard:
  "(map_of (billData s) (acc_id a) = None \<or>
    (\<exists>bill. map_of (billData s) (acc_id a) = Some bill \<and>
       (status bill = ''paid'' \<or> amount_due bill = None \<or> amount_due bill = Some 0))
    \<longrightarrow> handlePayNow a s = s\<lparr>selectedAccount := Some a\<rparr> \<and>
        isQRModalOpen (handlePayNow a s) = isQRModalOpen s \<and>
        qrCode (handlePayNow a s) = qrCode s \<and>
        outbox (handlePayNow a s) = outbox s) \<and>
   (isQRModalOpen (handlePayNow a (fetchBill_rejected a s)) = isQRModalOpen s \<and>
    outbox (handlePayNow a (fetchBill_rejected a s)) = outbox s) \<and>
   ((\<exists>bill n. map_of (billData s) (acc_id a) = Some bill \<and> status bill \<noteq> ''paid'' \<and>
        amount_due bill = Some n \<and> n \<noteq> 0)
    \<longrightarrow> isQRModalOpen (handlePayNow a s) \<and>
        outbox (handlePayNow a s)
          = outbox s @ [InitiatePayment (acc_id a) (service_type a) (consumer_id a)])"
  by (auto simp: handlePayNow_def no_amount_def Let_def fetchBill_rejected_def
        error_snapshot_def update_conv' split: option.splits)

theorem pay_now_guard_witness:
  "handlePayNow ex_water ex_dashboard = ex_dashboard\<lparr>selectedAccount := Some ex_water\<rparr> \<and>
   outbox (handlePayNow ex_water ex_dashboard) = outbox ex_dashboard \<and>
   isQRModalOpen (handlePayNow ex_power ex_dashboard)"
proof -
  have none: "map_of (billData ex_dashboard) (acc_id ex_water) = None"
    by (simp add: ex_dashboard_def ex_water_def)
  have some: "\<exists>bill n. map_of (billData ex_dashboard) (acc_id ex_power) = Some bill \<and>
      status bill \<noteq> ''paid'' \<and> amount_due bill = Some n \<and> n \<noteq> 0"
    by (simp add: ex_dashboard_def ex_power_def ex_unpaid_def snapshot_of_response_def)
  from pay_now_guard [of ex_dashboard ex_water] none
       pay_now_guard [of ex_dashboard ex_power] some
  show ?thesis by blast
qed

section \<open>Account removal\<close>

text \<open>
  C6, as the claim states it, fails in its last part: \<open>handleRemoveAccount\<close> never touches
  \<open>loadingAccounts\<close>. The water account is removed while its fetch is in flight; the
  remote delete fails; its loading flag is still there, and still set.
\<close>

theorem removal_keeps_loading_flag_counterexample:
  "map_option loadingAccounts
     (run [Remove ex_water,
           RemoveSettled False ex_water (accounts ex_dashboard) (billData ex_dashboard)]
        ex_dashboard)
   = Some [(''a1'', False), (''b2'', True)]"
  by (simp add: step_def settle_def ex_dashboard_def ex_water_def ex_power_def card_shown_def
        handleRemoveAccount_def handleRemoveAccount_settled_def commit_def run_effects_def
        effects_for_simps accountsNeedingFetch_def effect_fetchMissing_def effect_persist_def
        fetchChartData_def loadedBills_def saveCachedLayout_def)

text \<open>
  C6, amended. Once the remote delete has settled, successfully or not, no account with
  the id of the removed account is left in \<open>accounts\<close> and its id is no key of
  \<open>billData\<close>; \<open>loadingAccounts\<close> is not changed by the removal, and the flag of the
  removed account is still what it was after the effects that follow.
\<close>

theorem removal_evicts_account_and_bill:
  assumes "step (RemoveSettled ok a accs bills) s = Some s'"
  shows "(\<forall>x \<in> set (accounts s'). acc_id x \<noteq> acc_id a) \<and>
         acc_id a \<notin> set (map fst (billData s')) \<and>
         map_of (billData s') (acc_id a) = None \<and>
         loadingAccounts (handleRemoveAccount_settled ok a accs bills s) = loadingAccounts s \<and>
         map_of (loadingAccounts s') (acc_id a) = map_of (loadingAccounts s) (acc_id a)"
proof -
  from assms obtain s0 where s0: "settle (RemoveAccountRemote a accs bills) s = Some s0"
    and s': "s' = commit [Accounts, BillData] (handleRemoveAccount_settled ok a accs bills s0)"
    by (auto simp: step_def)
  let ?r = "handleRemoveAccount_settled ok a accs bills s0"
  from s0 have same: "accounts s0 = accounts s" "billData s0 = billData s"
      "loadingAccounts s0 = loadingAccounts s"
    by (auto simp: settle_def split: if_splits)
  have acc: "\<forall>x \<in> set (accounts ?r). acc_id x \<noteq> acc_id a"
    by (simp add: handleRemoveAccount_settled_def)
  have bill: "map_of (billData ?r) (acc_id a) = None"
    by (simp add: handleRemoveAccount_settled_def delete_conv')
  then have key: "acc_id a \<notin> set (map fst (billData ?r))"
    by (simp add: map_of_eq_None_iff)
  have "acc_id a \<notin> acc_id ` set (accountsNeedingFetch ?r)"
    using acc by (auto simp: accountsNeedingFetch_def)
  then have flag: "map_of (loadingAccounts s') (acc_id a) = map_of (loadingAccounts s) (acc_id a)"
    using same by (simp add: s' loading_commit handleRemoveAccount_settled_def)
  have "loadingAccounts (handleRemoveAccount_settled ok a accs bills s) = loadingAccounts s"
    by (simp add: handleRemoveAccount_settled_def)
  with acc bill key flag show ?thesis by (simp add: s')
qed

theorem removal_evicts_account_and_bill_witness:
  "\<exists>s'. step (RemoveSettled False ex_water (accounts ex_dashboard) (billData ex_dashboard))
           ex_removing = Some s' \<and>
        ex_water \<notin> set (accounts s') \<and>
        map_of (billData s') ''b2'' = None \<and>
        map_of (loadingAccounts s') ''b2'' = Some True"
proof -
  obtain s' where en:
    "step (RemoveSettled False ex_water (accounts ex_dashboard) (billData ex_dashboard))
       ex_removing = Some s'"
    by (simp add: step_def settle_def ex_removing_def handleRemoveAccount_def)
  have facts: "acc_id ex_water = ''b2''" "map_of (loadingAccounts ex_removing) ''b2'' = Some True"
    by (simp_all add: ex_removing_def handleRemoveAccount_def ex_dashboard_def ex_water_def)
  from removal_evicts_account_and_bill [OF en] facts en show ?thesis by auto
qed

section \<open>Chart fallback\<close>

text \<open>
  C3. When the chart request fails, the trend rows and the trend lines are empty, and the
  comparison series has one row per distinct service type of the accounts (in the order of
  first occurrence), whose amount is the sum, over the accounts of that type, of the amount
  due of the account's snapshot, an account without snapshot or without amount counting 0.
  \<open>accs\<close> and \<open>bills\<close> are the accounts and snapshots of the render that sent the
  request.
\<close>

theorem chart_fallback_no_fabrication:
  "trendData (fetchChartData_rejected accs bills s) = [] \<and>
   trendLines (fetchChartData_rejected accs bills s) = [] \<and>
   comparisonData (fetchChartData_rejected accs bills s) =
     map (\<lambda>type. \<lparr>service = fst (chart_meta type),
                  amount = (\<Sum>a \<leftarrow> filter (\<lambda>a. service_type a = type) accs.
                              case map_of bills (acc_id a) of
                                None \<Rightarrow> 0
                              | Some b \<Rightarrow> (case amount_due b of None \<Rightarrow> 0 | Some n \<Rightarrow> n)),
                  fill = snd (chart_meta type)\<rparr>)
       (set_spread (map service_type accs)) \<and>
   distinct (set_spread (map service_type accs)) \<and>
   set (set_spread (map service_type accs)) = service_type ` set accs"
  by (simp add: fetchChartData_rejected_def local_comparison_def foldl_plus_sum_list
        amount_or_zero_def)

theorem chart_fallback_no_fabrication_witness:
  "trendData (fetchChartData_rejected [ex_power, ex_water, ex_power] (billData ex_dashboard)
               ex_dashboard) = [] \<and>
   comparisonData (fetchChartData_rejected [ex_power, ex_water, ex_power] (billData ex_dashboard)
                    ex_dashboard)
     = [\<lparr>service = ''KSEB'', amount = 1000, fill = ''#d97706''\<rparr>,
        \<lparr>service = ''KWA'', amount = 0, fill = ''#119bb0''\<rparr>]"
proof -
  have types: "set_spread (map service_type [ex_power, ex_water, ex_power]) = [''kseb'', ''kwa'']"
    by (simp add: set_spread_def ex_power_def ex_water_def)
  have meta: "chart_meta ''kseb'' = (''KSEB'', ''#d97706'')" "chart_meta ''kwa'' = (''KWA'', ''#119bb0'')"
    by (simp_all add: chart_meta_def SERVICE_CHART_META_def)
  from chart_fallback_no_fabrication
         [of "[ex_power, ex_water, ex_power]" "billData ex_dashboard" ex_dashboard]
  show ?thesis
    unfolding types
    by (simp add: meta ex_power_def ex_water_def ex_dashboard_def ex_unpaid_def
          snapshot_of_response_def)
qed

section \<open>When the chart adapter runs\<close>

text \<open>
  C4, as the claim states it, fails: the adapter runs while a fetch is in flight. After the
  profiles arrive both bills are being fetched and no chart request is out; as soon as the
  power bill arrives the chart request leaves, the water bill still loading; when that
  request fails, the local fallback computes the comparison series, the water bill still
  loading.
\<close>

theorem chart_runs_mid_fetch_counterexample:
  "map_option outbox (run [ProfilesResolved [ex_home]] (mount NoItem 1000 True))
     = Some [FetchBill ex_power, FetchBill ex_water] \<and>
   map_option outbox
     (run [ProfilesResolved [ex_home], BillResolved ex_power ex_unpaid] (mount NoItem 1000 True))
     = Some [FetchBill ex_water,
             GetChartData [ex_power, ex_water] [(''a1'', snapshot_of_response ex_unpaid)]] \<and>
   map_option loadingAccounts
     (run [ProfilesResolved [ex_home], BillResolved ex_power ex_unpaid,
           ChartRejected [ex_power, ex_water] [(''a1'', snapshot_of_response ex_unpaid)]]
        (mount NoItem 1000 True))
     = Some [(''a1'', False), (''b2'', True)] \<and>
   map_option comparisonData
     (run [ProfilesResolved [ex_home], BillResolved ex_power ex_unpaid,
           ChartRejected [ex_power, ex_water] [(''a1'', snapshot_of_response ex_unpaid)]]
        (mount NoItem 1000 True))
     = Some [\<lparr>service = ''KSEB'', amount = 500, fill = ''#d97706''\<rparr>,
             \<lparr>service = ''KWA'', amount = 0, fill = ''#119bb0''\<rparr>]"
  by code_simp

text \<open>
  C4, amended. Every handler that changes \<open>accounts\<close>, \<open>billData\<close> or
  \<open>loadingAccounts\<close> sets one of them, and the effects of a render in which one of them
  was set end with the chart adapter, run on that render. The adapter clears the three
  series when there is no account; otherwise it does nothing exactly when every key of
  \<open>billData\<close> is flagged as loading (so also when there is no snapshot at all), and in
  every other case it sends the chart request, whether or not other accounts are loading.
\<close>

theorem chart_adapter_guard:
  "(handle e s = Some r \<and>
      (accounts r \<noteq> accounts s \<or> billData r \<noteq> billData s \<or>
       loadingAccounts r \<noteq> loadingAccounts s)
    \<longrightarrow> sets e s \<noteq> []) \<and>
   (changed \<noteq> [] \<longrightarrow> (\<exists>s1. run_effects changed r' = fetchChartData r' s1)) \<and>
   (commit changed r' = run_effects changed r' \<or>
    commit changed r' = run_effects [LoadingAccounts] (run_effects changed r')) \<and>
   fetchChartData r' s0 =
     (if accounts r' = []
      then s0\<lparr>comparisonData := [], trendData := [], trendLines := []\<rparr>
      else if \<forall>id \<in> set (map fst (billData r')). map_of (loadingAccounts r') id = Some True
      then s0
      else s0\<lparr>outbox := outbox s0 @ [GetChartData (accounts r') (billData r')]\<rparr>)"
  using handle_sets [of e s r] run_effects_ends_with_chart [of changed r']
  by (simp add: fetchChartData_def loadedBills_Nil_iff commit_def Let_def del: set_map)

theorem chart_adapter_guard_witness:
  "sets (BillRejected ex_water) ex_dashboard \<noteq> [] \<and>
   (\<exists>s1. run_effects [BillData, LoadingAccounts] ex_dashboard = fetchChartData ex_dashboard s1) \<and>
   fetchChartData ex_dashboard ex_dashboard =
     ex_dashboard\<lparr>outbox := [FetchBill ex_water,
        GetChartData [ex_power, ex_water] [(''a1'', snapshot_of_response ex_unpaid)]]\<rparr> \<and>
   fetchChartData (ex_dashboard\<lparr>loadingAccounts := [(''a1'', True), (''b2'', True)]\<rparr>)
       ex_dashboard = ex_dashboard"
proof -
  let ?r = "fetchBill_rejected ex_water (ex_dashboard\<lparr>outbox := []\<rparr>)"
  let ?busy = "ex_dashboard\<lparr>loadingAccounts := [(''a1'', True), (''b2'', True)]\<rparr>"
  have h: "handle (BillRejected ex_water) ex_dashboard = Some ?r"
    by (simp add: settle_def ex_dashboard_def)
  have ch: "billData ?r \<noteq> billData ex_dashboard"
    by (simp add: fetchBill_rejected_def ex_dashboard_def ex_water_def)
  have ne: "[BillData, LoadingAccounts] \<noteq> []" by simp
  have g1: "accounts ex_dashboard \<noteq> []"
    "\<not> (\<forall>id \<in> set (map fst (billData ex_dashboard)).
          map_of (loadingAccounts ex_dashboard) id = Some True)"
    "outbox ex_dashboard = [FetchBill ex_water]"
    "accounts ex_dashboard = [ex_power, ex_water]"
    "billData ex_dashboard = [(''a1'', snapshot_of_response ex_unpaid)]"
    by (simp_all add: ex_dashboard_def)
  have g2: "accounts ?busy \<noteq> []"
    "\<forall>id \<in> set (map fst (billData ?busy)). map_of (loadingAccounts ?busy) id = Some True"
    by (simp_all add: ex_dashboard_def)
  from chart_adapter_guard
         [of "BillRejected ex_water" ex_dashboard ?r "[BillData, LoadingAccounts]"
             ex_dashboard ex_dashboard]
       chart_adapter_guard
         [of "BillRejected ex_water" ex_dashboard ?r "[BillData, LoadingAccounts]"
             ?busy ex_dashboard]
       h ch ne g1 g2
  show ?thesis by simp
qed

section \<open>Which accounts are fetched\<close>



section \<open>Error snapshots and payment\<close>

text \<open>
  C8. The invariant "a snapshot with \<open>error = true\<close> has status \<open>unknown\<close>" does not hold
  of the code. The power bill is loaded (unpaid, 500); the user refreshes it and, while the
  fetch is in flight, presses "Pay Now", which opens the payment modal; the fetch fails and
  writes the error snapshot; the user presses "Payment Done". \<open>handlePaymentComplete\<close>
  spreads the previous snapshot and overwrites only \<open>amount_due\<close> and \<open>status\<close>: the
  result is a paid snapshot with \<open>error = true\<close>.
\<close>

theorem paid_error_snapshot_reachable:
  "map_option billData
     (run [ProfilesResolved [ex_home], BillResolved ex_power ex_unpaid, Refresh ex_power,
           PayNow ex_power, BillRejected ex_power, PaymentDone]
        (mount NoItem 1000 True))
   = Some [(''a1'', \<lparr>amount_due = Some 0, status = ''paid'', units_consumed = None,
                     error = True\<rparr>)]"
  by code_simp

section \<open>Report flow\<close>

text \<open>
  C9. With an image selected and geolocation denied, the analysis request is sent with
  both coordinates \<open>null\<close>. When that request is rejected, the page does not reach a
  result or a failure: \<open>onload\<close> is an async callback outside the \<open>try\<close> of
  \<open>handleAnalyze\<close>, so nothing resets \<open>isAnalyzing\<close>. Nothing is in flight any more, and
  whatever happens afterwards, \<open>isAnalyzing\<close> stays true.
\<close>

theorem analysis_rejection_leaves_analyzing:
  "map_option page_outbox
     (page_run [GeoError ''User denied Geolocation'', ImageSelect (Some ''photo.jpg''),
                Analyze False, ReaderLoaded ''photo.jpg'' None ''data:image/jpeg;base64,QUJD'']
        (page_mount True))
     = Some [ReadPreview ''photo.jpg'',
             AnalyzePost \<lparr>image_base64 = Some ''QUJD'', device_latitude = None,
                           device_longitude = None\<rparr>] \<and>
   page_run [GeoError ''User denied Geolocation'', ImageSelect (Some ''photo.jpg''),
             Analyze False, ReaderLoaded ''photo.jpg'' None ''data:image/jpeg;base64,QUJD'',
             AnalyzeRejected \<lparr>image_base64 = Some ''QUJD'', device_latitude = None,
                               device_longitude = None\<rparr>,
             PreviewLoaded ''photo.jpg'' ''data:image/jpeg;base64,QUJD'']
        (page_mount True)
     = Some ex_stuck \<and>
   (\<forall>es s'. page_run es ex_stuck = Some s' \<longrightarrow> isAnalyzing s')"
proof -
  have sent: "map_option page_outbox
     (page_run [GeoError ''User denied Geolocation'', ImageSelect (Some ''photo.jpg''),
                Analyze False, ReaderLoaded ''photo.jpg'' None ''data:image/jpeg;base64,QUJD'']
        (page_mount True))
     = Some [ReadPreview ''photo.jpg'',
             AnalyzePost \<lparr>image_base64 = Some ''QUJD'', device_latitude = None,
                           device_longitude = None\<rparr>]"
    by code_simp
  have stuck: "page_run [GeoError ''User denied Geolocation'', ImageSelect (Some ''photo.jpg''),
             Analyze False, ReaderLoaded ''photo.jpg'' None ''data:image/jpeg;base64,QUJD'',
             AnalyzeRejected \<lparr>image_base64 = Some ''QUJD'', device_latitude = None,
                               device_longitude = None\<rparr>,
             PreviewLoaded ''photo.jpg'' ''data:image/jpeg;base64,QUJD'']
        (page_mount True)
     = Some ex_stuck"
    by code_simp
  have "isAnalyzing ex_stuck" "no_analysis_pending ex_stuck"
    by (simp_all add: ex_stuck_def no_analysis_pending_def)
  then have "\<forall>es s'. page_run es ex_stuck = Some s' \<longrightarrow> isAnalyzing s'"
    using page_run_stuck by blast
  with sent stuck show ?thesis by blast
qed

theorem analysis_rejection_leaves_analyzing_witness:
  "\<exists>s'. page_run [ClearForm, ImageSelect (Some ''other.jpg''), PreviewLoaded ''other.jpg'' ''data:,'']
           ex_stuck = Some s' \<and> isAnalyzing s'"
proof -
  have "page_run [ClearForm, ImageSelect (Some ''other.jpg''), PreviewLoaded ''other.jpg'' ''data:,'']
           ex_stuck \<noteq> None"
    by code_simp
  then obtain s' where en:
    "page_run [ClearForm, ImageSelect (Some ''other.jpg''), PreviewLoaded ''other.jpg'' ''data:,'']
           ex_stuck = Some s'"
    by auto
  with analysis_rejection_leaves_analyzing show ?thesis by blast
qed

end
